theory Spec2Isabelle
  imports Complex_Main
begin

section \<open>Values, errors and the numpy operations the plotting methods use\<close>

text \<open>
  The module \<^verbatim>\<open>seismicToolBoxClass.py\<close> holds one class, \<^verbatim>\<open>seismicToolBox\<close>, with the
  plotting methods \<^verbatim>\<open>wiggle\<close> and \<^verbatim>\<open>imageseis\<close>. Amplitudes, coordinates, gains and
  percentiles are numbers of the exact field \<^typ>\<open>rat\<close>: comparison, maximum, absolute
  value and clipping do not round in floating point either, and the values a division by
  zero produces in numpy (\<^verbatim>\<open>inf\<close>, \<^verbatim>\<open>-inf\<close>, \<^verbatim>\<open>nan\<close>) are kept as values of their own.
\<close>

type_synonym matrix = "rat list list"

text \<open>A Python number as the caller writes it into an interval list.\<close>

datatype pynum = PyInt int | PyFloat rat

datatype error =
  SystemExit | IndexError | KeyError | TypeError | ValueError | ZeroDivisionError

text \<open>The result of a numpy float division: a finite value, an infinity, or not-a-number.\<close>

datatype npfloat = Fin rat | PInf | NInf | NaN

fun num_val :: "pynum \<Rightarrow> rat" where
  "num_val (PyInt i) = of_int i"
| "num_val (PyFloat q) = q"

text \<open>Python's \<^verbatim>\<open>int(v)\<close> on a number: truncation towards zero.\<close>

definition trunc :: "rat \<Rightarrow> int" where
  "trunc q = (if 0 \<le> q then \<lfloor>q\<rfloor> else \<lceil>q\<rceil>)"

definition py_int :: "pynum \<Rightarrow> int" where
  "py_int v = trunc (num_val v)"

text \<open>
  A Python slice \<^verbatim>\<open>xs[a:b]\<close>: a negative bound counts from the end, and both bounds are
  cut to the length.
\<close>

definition slice_bound :: "nat \<Rightarrow> int \<Rightarrow> nat" where
  "slice_bound n i = (if i < 0 then nat (max 0 (int n + i)) else min n (nat i))"

definition py_slice :: "int \<Rightarrow> int \<Rightarrow> 'a list \<Rightarrow> 'a list" where
  "py_slice a b xs =
     (let lo = slice_bound (length xs) a; hi = slice_bound (length xs) b
      in take (hi - lo) (drop lo xs))"

text \<open>
  Reading \<^verbatim>\<open>xs[i]\<close>: an index from the front, an index from the back when negative, and
  an \<^verbatim>\<open>IndexError\<close> outside both.
\<close>

definition py_index :: "'a list \<Rightarrow> int \<Rightarrow> error + 'a" where
  "py_index xs i =
     (if 0 \<le> i \<and> i < int (length xs) then Inr (xs ! nat i)
      else if i < 0 \<and> - int (length xs) \<le> i then Inr (xs ! nat (int (length xs) + i))
      else Inl IndexError)"

text \<open>\<^verbatim>\<open>range(a, b)\<close> and \<^verbatim>\<open>np.arange(0, n)\<close>, as the coordinates they are used for.\<close>

definition py_range :: "int \<Rightarrow> int \<Rightarrow> rat list" where
  "py_range a b = map of_int [a..b - 1]"

definition np_arange :: "nat \<Rightarrow> rat list" where
  "np_arange n = map of_nat [0..<n]"

text \<open>
  \<^verbatim>\<open>np.percentile(a, q)\<close> with the default linear interpolation, over the flattened array:
  the percentile is checked first, the sorted values are read at the two neighbours of
  the position \<^verbatim>\<open>q/100 * (n-1)\<close>. An empty array has no percentile (recent numpy
  raises \<^verbatim>\<open>IndexError\<close>).
\<close>

definition np_percentile :: "rat list \<Rightarrow> rat \<Rightarrow> error + rat" where
  "np_percentile a q =
     (if q < 0 \<or> 100 < q then Inl ValueError
      else if a = [] then Inl IndexError
      else
        let s = sort a; n = length s;
            vi = (q / 100) * of_nat (n - 1);
            lo = nat \<lfloor>vi\<rfloor>;
            hi = min (lo + 1) (n - 1);
            g = vi - of_int \<lfloor>vi\<rfloor>
        in Inr (s ! lo + (s ! hi - s ! lo) * g))"

text \<open>\<^verbatim>\<open>np.clip(v, a_min, a_max)\<close> on one element: \<^verbatim>\<open>minimum(maximum(v, a_min), a_max)\<close>.\<close>

definition np_clip :: "rat \<Rightarrow> rat \<Rightarrow> rat \<Rightarrow> rat" where
  "np_clip a_min a_max v = min (max v a_min) a_max"

text \<open>\<^verbatim>\<open>np.max\<close> / \<^verbatim>\<open>np.nanmax\<close> of a non-empty list of numbers; an empty one raises.\<close>

definition np_max :: "rat list \<Rightarrow> error + rat" where
  "np_max xs = (case xs of [] \<Rightarrow> Inl ValueError | y # ys \<Rightarrow> Inr (fold max ys y))"

definition np_min :: "rat list \<Rightarrow> error + rat" where
  "np_min xs = (case xs of [] \<Rightarrow> Inl ValueError | y # ys \<Rightarrow> Inr (fold min ys y))"

section \<open>Percentile clipping (wiggle lines 166-170, imageseis lines 300-304)\<close>

text \<open>
  Both methods run the same two statements on the selected view:
  \<^verbatim>\<open>nth_percentile = np.abs(np.percentile(Data, perc))\<close> and
  \<^verbatim>\<open>Data = np.clip(Data, a_min=-nth_percentile, a_max=nth_percentile)\<close>.
\<close>

definition nth_percentile :: "matrix \<Rightarrow> rat \<Rightarrow> error + rat" where
  "nth_percentile D p =
     (case np_percentile (concat D) p of Inl e \<Rightarrow> Inl e | Inr v \<Rightarrow> Inr \<bar>v\<bar>)"

definition percentile_clip :: "matrix \<Rightarrow> rat \<Rightarrow> error + matrix" where
  "percentile_clip D p =
     (case nth_percentile D p of
        Inl e \<Rightarrow> Inl e
      | Inr b \<Rightarrow> Inr (map (map (np_clip (- b) b)) D))"


section \<open>Arithmetic that can divide by zero\<close>

text \<open>
  numpy divides by zero without raising: a non-zero numerator gives an infinity of its
  sign, zero gives not-a-number (the divisors here are absolute values or slider values,
  so a zero divisor is the positive zero). Adding a finite number keeps the special
  values, \<^verbatim>\<open>np.clip\<close> cuts an infinity to a bound and keeps not-a-number, and every
  comparison with not-a-number is false.
\<close>

definition np_divide :: "rat \<Rightarrow> rat \<Rightarrow> npfloat" where
  "np_divide n d =
     (if d \<noteq> 0 then Fin (n / d) else if 0 < n then PInf else if n < 0 then NInf else NaN)"

fun np_add :: "rat \<Rightarrow> npfloat \<Rightarrow> npfloat" where
  "np_add c (Fin v) = Fin (c + v)"
| "np_add c PInf = PInf"
| "np_add c NInf = NInf"
| "np_add c NaN = NaN"

fun np_clip_f :: "rat \<Rightarrow> rat \<Rightarrow> npfloat \<Rightarrow> npfloat" where
  "np_clip_f a_min a_max (Fin v) = Fin (np_clip a_min a_max v)"
| "np_clip_f a_min a_max PInf = Fin a_max"
| "np_clip_f a_min a_max NInf = Fin (min a_min a_max)"
| "np_clip_f a_min a_max NaN = NaN"

fun np_greater :: "npfloat \<Rightarrow> rat \<Rightarrow> bool" where
  "np_greater (Fin v) c = (c < v)"
| "np_greater PInf c = True"
| "np_greater NInf c = False"
| "np_greater NaN c = False"

section \<open>The toolbox object, the plotting backend and the state of a call\<close>

text \<open>
  numpy arrays are mutable and shared, so they live in a store of arrays by address; the
  object holds the addresses of its data matrix and of its trace-header table. A matrix is
  the list of its rows: one row per time sample, one column per trace.
\<close>

record toolbox =
  Data :: nat
  SH :: "string \<Rightarrow> rat option"
  STH :: nat
  dt :: rat

text \<open>\<^verbatim>\<open>__init__\<close> (lines 86-89): \<^verbatim>\<open>self.dt = self.SH['dt']/1000000\<close>.\<close>

definition init :: "nat \<times> (string \<Rightarrow> rat option) \<times> nat \<Rightarrow> error + toolbox" where
  "init segy =
     (case segy of (d, sh, sth) \<Rightarrow>
        (case sh ''dt'' of
           None \<Rightarrow> Inl KeyError
         | Some v \<Rightarrow> Inr \<lparr>Data = d, SH = sh, STH = sth, dt = v / 1000000\<rparr>))"

text \<open>
  The calls made to the plotting backend are recorded in order, with their arguments; the
  backend itself (matplotlib) is not part of the module.
\<close>

datatype command =
    Set_xlabel string
  | Set_ylabel string
  | Plot "npfloat list" "rat list" string rat
  | Fill_betweenx "rat list" rat "npfloat list" "bool list" string
  | Grid bool
  | Set_xlim rat rat
  | Set_ylim rat rat
  | Invert_yaxis
  | Subplots_adjust
  | Pcolormesh "rat list" "rat list" matrix rat rat
  | Colorbar
  | Axis string
  | Xlabel string
  | Ylabel string
  | Axes "rat list"
  | Draw

datatype printed = PrintList "pynum list" | PrintStr string | PrintLengths nat nat

text \<open>
  The state a call runs in: the arrays, the object, the caller's list object
  \<^verbatim>\<open>timesample_interval\<close> (\<open>None\<close> when the caller passes none), the backend calls made
  so far, and what was printed.
\<close>

record state =
  store :: "nat \<Rightarrow> matrix"
  next_free :: nat
  self :: toolbox
  timesample_interval :: "pynum list option"
  axes :: "command list"
  stdout :: "printed list"

text \<open>The other arguments of \<^verbatim>\<open>wiggle\<close> and \<^verbatim>\<open>imageseis\<close>; none of them is written to.\<close>

record plot_args =
  arg_x :: "rat list option"
  arg_t :: "rat list option"
  trace_interval :: "pynum list option"
  timewindow :: bool
  perc :: rat
  skipt :: int
  lwidth :: rat
  gain :: rat
  typeD :: "string option"
  color :: string

definition alloc :: "matrix \<Rightarrow> state \<Rightarrow> nat \<times> state" where
  "alloc m s =
     (next_free s, s\<lparr>store := (store s)(next_free s := m), next_free := Suc (next_free s)\<rparr>)"

section \<open>The opening block of both methods (lines 139-170 and 275-304)\<close>

text \<open>
  Lines 139-145 / 275-281: with \<^verbatim>\<open>timewindow\<close> set, the two entries of the caller's list
  are read, then overwritten by \<^verbatim>\<open>int(entry / self.dt)\<close>, and the list is printed.
\<close>

definition convert_timewindow :: "state \<Rightarrow> error option \<times> state" where
  "convert_timewindow s =
     (case timesample_interval s of
        None \<Rightarrow> (Some TypeError, s)
      | Some l \<Rightarrow>
          if length l < 2 then (Some IndexError, s)
          else if dt (self s) = 0 then (Some ZeroDivisionError, s)
          else
            let l1 = l[0 := PyInt (trunc (num_val (l ! 0) / dt (self s)))];
                l2 = l1[1 := PyInt (trunc (num_val (l1 ! 1) / dt (self s)))]
            in (None, s\<lparr>timesample_interval := Some l2,
                        stdout := stdout s @ [PrintList l2]\<rparr>))"

text \<open>
  Lines 147-154 / 283-290: an interval that is given and has not two elements prints a
  message and calls \<^verbatim>\<open>sys.exit()\<close>. The message for the time interval is the only
  difference between the two methods.
\<close>

definition bad_interval :: "pynum list option \<Rightarrow> bool" where
  "bad_interval iv =
     (case iv of None \<Rightarrow> False | Some l \<Rightarrow> length l \<noteq> 2 \<or> length l > 2)"

definition check_intervals :: "string \<Rightarrow> plot_args \<Rightarrow> state \<Rightarrow> error option \<times> state" where
  "check_intervals msg a s =
     (if bad_interval (trace_interval a) then
        (Some SystemExit,
         s\<lparr>stdout := stdout s
            @ [PrintStr ''Error: trace_interval should be a list of two elements'']\<rparr>)
      else if bad_interval (timesample_interval s) then
        (Some SystemExit, s\<lparr>stdout := stdout s @ [PrintStr msg]\<rparr>)
      else (None, s))"

text \<open>
  Lines 160-163 / 295-298: the column slice, then the row slice, both with \<^verbatim>\<open>int()\<close> of
  the interval's entries.
\<close>

definition select_range :: "pynum list option \<Rightarrow> pynum list option \<Rightarrow> matrix \<Rightarrow> matrix" where
  "select_range tr ts D =
     (let D1 = (case tr of
                  None \<Rightarrow> D
                | Some l \<Rightarrow> map (py_slice (py_int (l ! 0)) (py_int (l ! 1))) D)
      in case ts of
           None \<Rightarrow> D1
         | Some l \<Rightarrow> py_slice (py_int (l ! 0)) (py_int (l ! 1)) D1)"

text \<open>
  The whole block: conversion, checks, \<^verbatim>\<open>copy.copy(self.Data)\<close> (a new array), the two
  slices (views of the copy, only read), and the clipped array (\<^verbatim>\<open>np.clip\<close> makes a new
  array). It returns the address of the clipped array.
\<close>

definition prepare_view :: "string \<Rightarrow> plot_args \<Rightarrow> state \<Rightarrow> (error + nat) \<times> state" where
  "prepare_view msg a s0 =
     (case (if timewindow a then convert_timewindow s0 else (None, s0)) of
        (Some e, s1) \<Rightarrow> (Inl e, s1)
      | (None, s1) \<Rightarrow>
          (case check_intervals msg a s1 of
             (Some e, s2) \<Rightarrow> (Inl e, s2)
           | (None, s2) \<Rightarrow>
               (case alloc (store s2 (Data (self s2))) s2 of
                  (c, s3) \<Rightarrow>
                    (case percentile_clip
                            (select_range (trace_interval a) (timesample_interval s3)
                               (store s3 c))
                            (perc a) of
                       Inl e \<Rightarrow> (Inl e, s3)
                     | Inr D \<Rightarrow> (case alloc D s3 of (w, s4) \<Rightarrow> (Inr w, s4))))))"

section \<open>Axis coordinates\<close>

text \<open>\<^verbatim>\<open>range(a, b)\<close> on the entries of an interval list: a float entry raises.\<close>

definition range_of :: "pynum list \<Rightarrow> error + rat list" where
  "range_of l =
     (case (l ! 0, l ! 1) of
        (PyInt i, PyInt j) \<Rightarrow> Inr (py_range i j)
      | _ \<Rightarrow> Inl TypeError)"

text \<open>\<^verbatim>\<open>t[a:b]\<close> on the entries of an interval list: a float entry raises.\<close>

definition slice_of :: "pynum list \<Rightarrow> rat list \<Rightarrow> error + rat list" where
  "slice_of l ts =
     (case (l ! 0, l ! 1) of
        (PyInt i, PyInt j) \<Rightarrow> Inr (py_slice i j ts)
      | _ \<Rightarrow> Inl TypeError)"

text \<open>
  Lines 194-205 / 341-352: the time axis and its label, from \<^verbatim>\<open>t\<close> and the time interval.
\<close>

definition t_axis ::
  "rat list option \<Rightarrow> pynum list option \<Rightarrow> nat \<Rightarrow> error + rat list \<times> string" where
  "t_axis t_opt ts ns =
     (case t_opt of
        Some tv \<Rightarrow>
          (case ts of
             Some l \<Rightarrow>
               (case slice_of l tv of
                  Inl e \<Rightarrow> Inl e
                | Inr tv' \<Rightarrow> Inr (tv', ''Time [s]''))
           | None \<Rightarrow> Inr (tv, ''Time [s]''))
      | None \<Rightarrow>
          (case ts of
             Some l \<Rightarrow>
               (case range_of l of
                  Inl e \<Rightarrow> Inl e
                | Inr tv' \<Rightarrow> Inr (tv', ''Sample number''))
           | None \<Rightarrow> Inr (np_arange ns, ''Sample number'')))"

text \<open>
  Lines 184-192 of \<^verbatim>\<open>wiggle\<close>: the trace coordinates; the label is set once they are
  known.
\<close>

definition wiggle_x :: "plot_args \<Rightarrow> nat \<Rightarrow> state \<Rightarrow> (error + rat list) \<times> state" where
  "wiggle_x a ntraces s =
     (case arg_x a of
        Some xv \<Rightarrow> (Inr xv, s\<lparr>axes := axes s @ [Set_xlabel ''Distance [m]'']\<rparr>)
      | None \<Rightarrow>
          (case (case trace_interval a of
                   Some l \<Rightarrow> range_of l
                 | None \<Rightarrow> Inr (np_arange ntraces)) of
             Inl e \<Rightarrow> (Inl e, s)
           | Inr xv \<Rightarrow> (Inr xv, s\<lparr>axes := axes s @ [Set_xlabel ''Trace number'']\<rparr>)))"

section \<open>The wiggle plot (lines 99-236)\<close>

definition nrows :: "matrix \<Rightarrow> nat" where
  "nrows D = length D"

definition ncols :: "matrix \<Rightarrow> nat" where
  "ncols D = (case D of [] \<Rightarrow> 0 | r # _ \<Rightarrow> length r)"

definition column :: "matrix \<Rightarrow> nat \<Rightarrow> rat list" where
  "column D i = map (\<lambda>r. r ! i) D"

text \<open>An assignment \<^verbatim>\<open>trace[r] = v\<close> through the view \<^verbatim>\<open>trace = Data[:, i]\<close>.\<close>

definition setitem :: "matrix \<Rightarrow> nat \<Rightarrow> nat \<Rightarrow> rat \<Rightarrow> matrix" where
  "setitem D r i v = D[r := (D ! r)[i := v]]"

text \<open>
  \<^verbatim>\<open>range(0, ntraces, skipt)\<close>: a zero step raises, a negative step gives no index.
\<close>

definition range_step :: "nat \<Rightarrow> int \<Rightarrow> error + nat list" where
  "range_step n k =
     (if k = 0 then Inl ValueError
      else if k < 0 then Inr []
      else Inr (filter (\<lambda>i. int i mod k = 0) [0..<n]))"

text \<open>
  Line 219, one sample: \<^verbatim>\<open>x[i] + gain * skipt * dx * trace / maxval\<close>, and line 220, the clip
  to \<^verbatim>\<open>[x[i]-dx, dx+x[i]]\<close>.
\<close>

definition offset_sample :: "rat \<Rightarrow> rat \<Rightarrow> int \<Rightarrow> rat \<Rightarrow> rat \<Rightarrow> rat \<Rightarrow> npfloat" where
  "offset_sample xi g k dx maxval v =
     np_clip_f (xi - dx) (dx + xi) (np_add xi (np_divide (g * of_int k * dx * v) maxval))"

text \<open>
  The loop body, lines 215-231, for trace \<open>i\<close> of the clipped array at address \<open>w\<close>. The
  copy of line 215 is dropped by line 216, so \<^verbatim>\<open>trace\<close> is a view of the clipped array
  and the assignments of lines 217, 218 and 229 write into it.
\<close>

definition wiggle_trace ::
  "plot_args \<Rightarrow> int \<Rightarrow> rat list \<Rightarrow> rat list \<Rightarrow> rat \<Rightarrow> rat \<Rightarrow> nat \<Rightarrow> nat \<Rightarrow> state
     \<Rightarrow> error option \<times> state" where
  "wiggle_trace a k xs ts dx maxval w i s =
     (let D = store s w in
      if D = [] then (Some IndexError, s)
      else
        let D1 = setitem D 0 i 0;
            D2 = setitem D1 (length D1 - 1) i 0;
            s1 = s\<lparr>store := (store s)(w := D2)\<rparr>;
            trace = column D2 i
        in case py_index xs (int i) of
             Inl e \<Rightarrow> (Some e, s1)
           | Inr xi \<Rightarrow>
               let traceplt = map (offset_sample xi (gain a) k dx maxval) trace;
                   s2 = s1\<lparr>axes := axes s1 @ [Plot traceplt ts (color a) (lwidth a)]\<rparr>
               in if typeD a = Some ''VA'' then
                    (None,
                     s2\<lparr>store := (store s2)
                            (w := map (\<lambda>r. r[i := (if r ! i < 0 then 0 else r ! i)]) D2),
                        axes := axes s2
                          @ [Fill_betweenx ts xi traceplt
                               (map (\<lambda>p. np_greater p xi) traceplt) (color a),
                             Grid False]\<rparr>)
                  else (None, s2))"

fun wiggle_loop ::
  "plot_args \<Rightarrow> int \<Rightarrow> rat list \<Rightarrow> rat list \<Rightarrow> rat \<Rightarrow> rat \<Rightarrow> nat \<Rightarrow> nat list \<Rightarrow> state
     \<Rightarrow> error option \<times> state" where
  "wiggle_loop a k xs ts dx maxval w [] s = (None, s)"
| "wiggle_loop a k xs ts dx maxval w (i # rest) s =
     (case wiggle_trace a k xs ts dx maxval w i s of
        (Some e, s') \<Rightarrow> (Some e, s')
      | (None, s') \<Rightarrow> wiggle_loop a k xs ts dx maxval w rest s')"

text \<open>
  Lines 177-182: \<^verbatim>\<open>ntmax = 1e+9\<close>; with more traces than that, \<^verbatim>\<open>skipt\<close> is replaced.
\<close>

definition effective_skipt :: "int \<Rightarrow> nat \<Rightarrow> int" where
  "effective_skipt k ntraces =
     (if (1000000000 :: rat) < of_nat ntraces then
        (let k' = \<lfloor>(of_nat ntraces :: rat) / 1000000000\<rfloor> in if k' < 1 then 1 else k')
      else k)"

text \<open>Lines 233-236: the limits, the inverted time axis and its label.\<close>

definition wiggle_finish :: "rat list \<Rightarrow> rat list \<Rightarrow> string \<Rightarrow> state \<Rightarrow> error option \<times> state" where
  "wiggle_finish xs ts yl s =
     (case (py_index xs 0, py_index xs (- 1)) of
        (Inr x0, Inr xl) \<Rightarrow>
          (let s1 = s\<lparr>axes := axes s @ [Set_xlim (x0 - 1) (xl + 1)]\<rparr>
           in case (np_min ts, np_max ts) of
                (Inr lo, Inr hi) \<Rightarrow>
                  (None, s1\<lparr>axes := axes s1 @ [Set_ylim lo hi, Invert_yaxis, Set_ylabel yl]\<rparr>)
              | _ \<Rightarrow> (Some ValueError, s1))
      | _ \<Rightarrow> (Some IndexError, s))"

definition wiggle :: "plot_args \<Rightarrow> state \<Rightarrow> error option \<times> state" where
  "wiggle a s0 =
     (case prepare_view ''Error: trace_interval should be a list of two elements'' a s0 of
        (Inl e, s1) \<Rightarrow> (Some e, s1)
      | (Inr w, s1) \<Rightarrow>
          (let ns = nrows (store s1 w);
               ntraces = ncols (store s1 w);
               k = effective_skipt (skipt a) ntraces
           in case wiggle_x a ntraces s1 of
                (Inl e, s2) \<Rightarrow> (Some e, s2)
              | (Inr xs, s2) \<Rightarrow>
                  (case t_axis (arg_t a) (timesample_interval s2) ns of
                     Inl e \<Rightarrow> (Some e, s2)
                   | Inr (ts, yl) \<Rightarrow>
                       (case (py_index xs 1, py_index xs 0) of
                          (Inr x1, Inr x0) \<Rightarrow>
                            (case np_max (concat (store s2 w)) of
                               Inl e \<Rightarrow> (Some e, s2)
                             | Inr Dmax \<Rightarrow>
                                 (case range_step ntraces k of
                                    Inl e \<Rightarrow> (Some e, s2)
                                  | Inr idx \<Rightarrow>
                                      (case wiggle_loop a k xs ts (x1 - x0) \<bar>Dmax\<bar> w idx s2 of
                                         (Some e, s3) \<Rightarrow> (Some e, s3)
                                       | (None, s3) \<Rightarrow> wiggle_finish xs ts yl s3)))
                        | _ \<Rightarrow> (Some IndexError, s2)))))"

section \<open>The interactive image (lines 240-382)\<close>

record slider =
  valmin :: rat
  valmax :: rat
  val :: rat

text \<open>
  The raster \<^verbatim>\<open>img\<close> that \<^verbatim>\<open>pcolormesh\<close> returns, with its colour limits, and the three
  sliders the callback reads.
\<close>

record session =
  img_x :: "rat list"
  img_t :: "rat list"
  img_C :: matrix
  clim :: "npfloat \<times> npfloat"
  s_cmax :: slider
  s_cmin :: slider
  s_gain :: slider

text \<open>
  Lines 322-339: the trace coordinates and their label. A given \<^verbatim>\<open>x\<close> of the wrong length
  prints a message that reads \<^verbatim>\<open>len(t)\<close> (a \<^verbatim>\<open>TypeError\<close> when \<^verbatim>\<open>t\<close> is \<^verbatim>\<open>None\<close>) and
  exits. After line 323, \<^verbatim>\<open>x\<close> is never \<^verbatim>\<open>None\<close>, so line 333 always sets the label.
\<close>

definition imageseis_x ::
  "plot_args \<Rightarrow> nat \<Rightarrow> nat \<Rightarrow> state \<Rightarrow> (error + rat list \<times> string) \<times> state" where
  "imageseis_x a ns ntraces s =
     (case arg_x a of
        None \<Rightarrow> (Inr (map (\<lambda>v. v + 1) (np_arange ntraces), ''Distance [m]''), s)
      | Some xv \<Rightarrow>
          if length xv \<noteq> ntraces then
            (case arg_t a of
               None \<Rightarrow> (Inl TypeError, s)
             | Some tv \<Rightarrow>
                 (Inl SystemExit, s\<lparr>stdout := stdout s @ [PrintLengths ns (length tv)]\<rparr>))
          else (Inr (xv, ''Distance [m]''), s))"

text \<open>
  Lines 372-376, the callback of the three sliders: it reads their values and sets the
  colour limits of the raster, then redraws.
\<close>

definition update :: "session \<Rightarrow> state \<Rightarrow> session \<times> state" where
  "update g s =
     (let cmin = np_divide (val (s_cmin g)) (val (s_gain g));
          cmax = np_divide (val (s_cmax g)) (val (s_gain g))
      in (g\<lparr>clim := (cmin, cmax)\<rparr>, s\<lparr>axes := axes s @ [Draw]\<rparr>))"

text \<open>
  A slider moved to a value: the widget stores the value and calls the registered callback
  (lines 378-380 register \<^verbatim>\<open>update\<close> on each of the three).
\<close>

datatype control = Cmin | Cmax | Gain

definition on_changed :: "control \<Rightarrow> rat \<Rightarrow> session \<Rightarrow> state \<Rightarrow> session \<times> state" where
  "on_changed c v g s =
     update
       (case c of
          Cmin \<Rightarrow> g\<lparr>s_cmin := (s_cmin g)\<lparr>val := v\<rparr>\<rparr>
        | Cmax \<Rightarrow> g\<lparr>s_cmax := (s_cmax g)\<lparr>val := v\<rparr>\<rparr>
        | Gain \<Rightarrow> g\<lparr>s_gain := (s_gain g)\<lparr>val := v\<rparr>\<rparr>)
       s"

definition imageseis :: "plot_args \<Rightarrow> state \<Rightarrow> (error + session) \<times> state" where
  "imageseis a s0 =
     (case prepare_view ''Error: timesample_interval should be a list of two elements'' a s0 of
        (Inl e, s1) \<Rightarrow> (Inl e, s1)
      | (Inr w, s1) \<Rightarrow>
          (let D = store s1 w; ns = nrows D; ntraces = ncols D
           in case np_max (concat D) of
                Inl e \<Rightarrow> (Inl e, s1)
              | Inr Dmax \<Rightarrow>
                  (let maxval = - 1 * (- 1) * Dmax
                   in case imageseis_x a ns ntraces s1 of
                        (Inl e, s2) \<Rightarrow> (Inl e, s2)
                      | (Inr (xs, xLabel), s2) \<Rightarrow>
                          (case t_axis (arg_t a) (timesample_interval s2) ns of
                             Inl e \<Rightarrow> (Inl e, s2)
                           | Inr (ts, yl) \<Rightarrow>
                               (case np_max (map abs (concat D)) of
                                  Inl e \<Rightarrow> (Inl e, s2)
                                | Inr amax \<Rightarrow>
                                    (let C = map (map (\<lambda>v. v * gain a)) D
                                     in (Inr \<lparr>img_x = xs, img_t = ts, img_C = C,
                                              clim = (Fin (- 1 * maxval), Fin maxval),
                                              s_cmax = \<lparr>valmin = 0, valmax = amax, val = amax\<rparr>,
                                              s_cmin = \<lparr>valmin = - amax, valmax = 0, val = - amax\<rparr>,
                                              s_gain = \<lparr>valmin = gain a, valmax = 10 * gain a,
                                                        val = gain a\<rparr>\<rparr>,
                                         s2\<lparr>axes := axes s2
                                              @ [Subplots_adjust,
                                                 Pcolormesh xs ts C (- 1 * maxval) maxval,
                                                 Colorbar, Axis ''normal'', Xlabel xLabel,
                                                 Ylabel yl, Invert_yaxis,
                                                 Axes [1 / 4, 3 / 20, 1 / 2, 3 / 100],
                                                 Axes [1 / 4, 1 / 10, 1 / 2, 3 / 100],
                                                 Axes [1 / 4, 1 / 20, 1 / 2, 3 / 100]]\<rparr>)))))))"

text \<open>
  The colour-scale value in the specification's words, for comparison with the limits
  \<^const>\<open>imageseis\<close> sets: the maximum of the view times the gain.
\<close>

definition spec_maxval :: "matrix \<Rightarrow> rat \<Rightarrow> error + rat" where
  "spec_maxval D g = (case np_max (concat D) of Inl e \<Rightarrow> Inl e | Inr m \<Rightarrow> Inr (m * g))"

text \<open>
  The plotted sample in the specification's words, for comparison with
  \<^const>\<open>offset_sample\<close>: \<^verbatim>\<open>x[i] + gain * traceSkip * dx * trace / maxAbs\<close> with \<^verbatim>\<open>maxAbs\<close>
  the maximum of the view, clipped to \<^verbatim>\<open>[x[i]-dx, x[i]+dx]\<close>.
\<close>

definition spec_maxAbs :: "matrix \<Rightarrow> error + rat" where
  "spec_maxAbs D = np_max (concat D)"

definition spec_offsetTrace :: "rat \<Rightarrow> rat \<Rightarrow> int \<Rightarrow> rat \<Rightarrow> rat \<Rightarrow> rat list \<Rightarrow> rat list" where
  "spec_offsetTrace xi g k dx maxAbs trace =
     map (\<lambda>v. np_clip (xi - dx) (xi + dx) (xi + g * of_int k * dx * v / maxAbs)) trace"

section \<open>Observations on a state\<close>

text \<open>The curves drawn: the first argument of every \<^verbatim>\<open>ax.plot\<close> call, in order.\<close>

fun curves :: "command list \<Rightarrow> npfloat list list" where
  "curves [] = []"
| "curves (Plot tp ts c lw # cs) = tp # curves cs"
| "curves (_ # cs) = curves cs"

text \<open>A two-dimensional array has rows of one length.\<close>

definition rect :: "matrix \<Rightarrow> bool" where
  "rect D = list_all (\<lambda>r. length r = ncols D) D"

text \<open>A trace with its first and last sample set to zero (lines 217-218).\<close>

definition pinned :: "rat list \<Rightarrow> rat list" where
  "pinned tr = (tr[0 := 0])[length tr - 1 := 0]"

section \<open>A concrete toolbox, for evaluating the methods\<close>

text \<open>
  A toolbox whose file header gives a sample interval of 2000 microseconds, so
  \<^verbatim>\<open>self.dt\<close> is 0.002 s; its data matrix is at address 0 and its header table at address 1.
  The arguments are the defaults of the signature of \<^verbatim>\<open>wiggle\<close> (lines 99-100).
\<close>

definition example_box :: toolbox where
  "example_box = \<lparr>Data = 0, SH = [''dt'' \<mapsto> 2000], STH = 1, dt = 1 / 500\<rparr>"

definition example_state :: "matrix \<Rightarrow> pynum list option \<Rightarrow> state" where
  "example_state D ti =
     \<lparr>store = (\<lambda>_. [])(0 := D), next_free = 2, self = example_box,
      timesample_interval = ti, axes = [], stdout = []\<rparr>"

definition default_args :: plot_args where
  "default_args =
     \<lparr>arg_x = None, arg_t = None, trace_interval = None, timewindow = False, perc = 100,
      skipt = 1, lwidth = 1 / 2, gain = 1, typeD = Some ''VA'', color = ''red''\<rparr>"

section \<open>The concrete toolbox is the one the constructor builds\<close>

lemma init_example: "init (0, [''dt'' \<mapsto> 2000], 1) = Inr example_box"
  by (simp add: init_def example_box_def)

section \<open>Properties of the percentile clipping\<close>






lemma percentile_clip_shape:
  "percentile_clip D p = Inr D' \<Longrightarrow>
     length D' = length D \<and> (\<forall>r<length D. length (D' ! r) = length (D ! r))"
  by (auto simp: percentile_clip_def split: sum.splits)




text \<open>
  Claim C2 at an all-negative view, percentile 100: the bound is 1, not the largest
  absolute amplitude 4, and the clipped view is not the input.
\<close>

theorem clip_p100_all_negative:
  "nth_percentile [[- 3, - 1], [- 2, - 4]] 100 = Inr 1
   \<and> percentile_clip [[- 3, - 1], [- 2, - 4]] 100 = Inr [[- 1, - 1], [- 1, - 1]]"
  by code_simp

section \<open>The slider callback\<close>


section \<open>What a call can change\<close>

lemma convert_timewindow_frame:
  "convert_timewindow s = (r, s') \<Longrightarrow>
     store s' = store s \<and> next_free s' = next_free s \<and> self s' = self s \<and> axes s' = axes s"
  by (auto simp: convert_timewindow_def Let_def split: option.splits if_splits)

lemma check_intervals_frame:
  "check_intervals msg a s = (r, s') \<Longrightarrow>
     store s' = store s \<and> next_free s' = next_free s \<and> self s' = self s \<and> axes s' = axes s
     \<and> timesample_interval s' = timesample_interval s"
  by (auto simp: check_intervals_def split: if_splits)

lemma alloc_frame:
  "alloc m s = (w, s') \<Longrightarrow>
     w = next_free s \<and> next_free s' = Suc (next_free s) \<and> self s' = self s
     \<and> axes s' = axes s \<and> timesample_interval s' = timesample_interval s
     \<and> stdout s' = stdout s \<and> store s' = (store s)(w := m)"
  by (auto simp: alloc_def)

lemma prepare_view_frame:
  assumes "prepare_view msg a s = (r, s')"
  shows "self s' = self s \<and> axes s' = axes s \<and> next_free s \<le> next_free s'
         \<and> (\<forall>n<next_free s. store s' n = store s n)"
proof -
  obtain r1 s1 where c1: "(if timewindow a then convert_timewindow s else (None, s)) = (r1, s1)"
    by (cases "if timewindow a then convert_timewindow s else (None, s)")
  then have f1: "store s1 = store s \<and> next_free s1 = next_free s \<and> self s1 = self s
                 \<and> axes s1 = axes s"
    using convert_timewindow_frame [of s r1 s1] by (auto split: if_splits)
  obtain r2 s2 where c2: "check_intervals msg a s1 = (r2, s2)"
    by (cases "check_intervals msg a s1")
  note f2 = check_intervals_frame [OF c2]
  obtain c s3 where c3: "alloc (store s2 (Data (self s2))) s2 = (c, s3)"
    by (cases "alloc (store s2 (Data (self s2))) s2")
  note f3 = alloc_frame [OF c3]
  show ?thesis
    using assms c1 c2 c3 f1 f2 f3
    by (auto simp: prepare_view_def alloc_def split: option.splits sum.splits)
qed

lemma prepare_view_fresh:
  assumes "prepare_view msg a s = (Inr w, s')"
  shows "next_free s \<le> w \<and> w < next_free s'"
proof -
  obtain r1 s1 where c1: "(if timewindow a then convert_timewindow s else (None, s)) = (r1, s1)"
    by (cases "if timewindow a then convert_timewindow s else (None, s)")
  then have f1: "store s1 = store s \<and> next_free s1 = next_free s \<and> self s1 = self s
                 \<and> axes s1 = axes s"
    using convert_timewindow_frame [of s r1 s1] by (auto split: if_splits)
  obtain r2 s2 where c2: "check_intervals msg a s1 = (r2, s2)"
    by (cases "check_intervals msg a s1")
  note f2 = check_intervals_frame [OF c2]
  show ?thesis
    using assms c1 c2 f1 f2
    by (auto simp: prepare_view_def alloc_def split: option.splits sum.splits)
qed

lemma wiggle_trace_frame:
  "wiggle_trace a k xs ts dx maxval w i s = (r, s') \<Longrightarrow>
     self s' = self s \<and> next_free s' = next_free s
     \<and> timesample_interval s' = timesample_interval s \<and> stdout s' = stdout s
     \<and> (\<forall>n. n \<noteq> w \<longrightarrow> store s' n = store s n)"
  by (auto simp: wiggle_trace_def Let_def split: if_splits sum.splits)

lemma wiggle_loop_frame:
  "wiggle_loop a k xs ts dx maxval w idx s = (r, s') \<Longrightarrow>
     self s' = self s \<and> next_free s' = next_free s
     \<and> timesample_interval s' = timesample_interval s \<and> stdout s' = stdout s
     \<and> (\<forall>n. n \<noteq> w \<longrightarrow> store s' n = store s n)"
proof (induction idx arbitrary: s)
  case Nil
  then show ?case by simp
next
  case (Cons i rest)
  obtain r1 s1 where t: "wiggle_trace a k xs ts dx maxval w i s = (r1, s1)"
    by (cases "wiggle_trace a k xs ts dx maxval w i s")
  note f = wiggle_trace_frame [OF t]
  show ?case
  proof (cases r1)
    case None
    with Cons.prems t have "wiggle_loop a k xs ts dx maxval w rest s1 = (r, s')" by simp
    from Cons.IH [OF this] f show ?thesis by simp
  next
    case (Some e)
    with Cons.prems t have "s' = s1" by simp
    with f show ?thesis by simp
  qed
qed

lemma wiggle_x_frame:
  "wiggle_x a n s = (r, s') \<Longrightarrow>
     self s' = self s \<and> next_free s' = next_free s \<and> store s' = store s
     \<and> timesample_interval s' = timesample_interval s \<and> stdout s' = stdout s"
  by (auto simp: wiggle_x_def split: option.splits sum.splits)

lemma wiggle_finish_frame:
  "wiggle_finish xs ts yl s = (r, s') \<Longrightarrow>
     self s' = self s \<and> next_free s' = next_free s \<and> store s' = store s
     \<and> timesample_interval s' = timesample_interval s \<and> stdout s' = stdout s"
  by (auto simp: wiggle_finish_def Let_def split: sum.splits)

lemma imageseis_x_frame:
  "imageseis_x a ns n s = (r, s') \<Longrightarrow>
     self s' = self s \<and> next_free s' = next_free s \<and> store s' = store s
     \<and> timesample_interval s' = timesample_interval s \<and> axes s' = axes s"
  by (auto simp: imageseis_x_def split: option.splits if_splits)

text \<open>What wiggle does after the opening block, as a function of its result.\<close>

lemma wiggle_after_prepare:
  assumes "prepare_view ''Error: trace_interval should be a list of two elements'' a s = (Inr w, s1)"
      and "wiggle a s = (r, s')"
  shows "self s' = self s1 \<and> next_free s' = next_free s1
         \<and> timesample_interval s' = timesample_interval s1
         \<and> (\<forall>n. n \<noteq> w \<longrightarrow> store s' n = store s1 n)"
proof -
  let ?k = "effective_skipt (skipt a) (ncols (store s1 w))"
  obtain rx s2 where x: "wiggle_x a (ncols (store s1 w)) s1 = (rx, s2)"
    by (cases "wiggle_x a (ncols (store s1 w)) s1")
  note fx = wiggle_x_frame [OF x]
  show ?thesis
  proof (cases rx)
    case (Inl e)
    with assms x have "s' = s2" by (simp add: wiggle_def Let_def)
    with fx show ?thesis by simp
  next
    case (Inr xs)
    note rx = this
    show ?thesis
    proof (cases "t_axis (arg_t a) (timesample_interval s2) (nrows (store s1 w))")
      case (Inl e)
      with assms x rx have "s' = s2" by (simp add: wiggle_def Let_def)
      with fx show ?thesis by simp
    next
      case (Inr tp)
      obtain ts yl where tp: "tp = (ts, yl)" by (cases tp)
      note ta = Inr [unfolded tp]
      show ?thesis
      proof (cases "\<exists>x1 x0 Dmax idx. py_index xs 1 = Inr x1 \<and> py_index xs 0 = Inr x0
                       \<and> np_max (concat (store s2 w)) = Inr Dmax
                       \<and> range_step (ncols (store s1 w)) ?k = Inr idx")
        case False
        with assms x rx ta have "s' = s2"
          by (auto simp: wiggle_def Let_def split: sum.splits)
        with fx show ?thesis by simp
      next
        case True
        then obtain x1 x0 Dmax idx where v: "py_index xs 1 = Inr x1" "py_index xs 0 = Inr x0"
            "np_max (concat (store s2 w)) = Inr Dmax"
            "range_step (ncols (store s1 w)) ?k = Inr idx"
          by blast
        obtain rl s3 where l: "wiggle_loop a ?k xs ts (x1 - x0) \<bar>Dmax\<bar> w idx s2 = (rl, s3)"
          by (cases "wiggle_loop a ?k xs ts (x1 - x0) \<bar>Dmax\<bar> w idx s2")
        note fl = wiggle_loop_frame [OF l]
        show ?thesis
        proof (cases rl)
          case (Some e)
          with assms x rx ta v l have "s' = s3" by (simp add: wiggle_def Let_def)
          with fl fx show ?thesis by simp
        next
          case None
          with assms x rx ta v l have "wiggle_finish xs ts yl s3 = (r, s')"
            by (simp add: wiggle_def Let_def)
          from wiggle_finish_frame [OF this] fl fx show ?thesis by simp
        qed
      qed
    qed
  qed
qed

lemma imageseis_after_prepare:
  assumes "prepare_view ''Error: timesample_interval should be a list of two elements'' a s = (r1, s1)"
      and "imageseis a s = (r, s')"
  shows "self s' = self s1 \<and> next_free s' = next_free s1 \<and> store s' = store s1
         \<and> timesample_interval s' = timesample_interval s1"
proof (cases r1)
  case (Inl e)
  with assms show ?thesis by (simp add: imageseis_def)
next
  case (Inr w)
  obtain rx s2 where x: "imageseis_x a (nrows (store s1 w)) (ncols (store s1 w)) s1 = (rx, s2)"
    by (cases "imageseis_x a (nrows (store s1 w)) (ncols (store s1 w)) s1")
  note fx = imageseis_x_frame [OF x]
  from assms Inr x fx show ?thesis
    by (auto simp: imageseis_def Let_def split: sum.splits prod.splits)
qed

lemma wiggle_prepare_error:
  "prepare_view ''Error: trace_interval should be a list of two elements'' a s = (Inl e, s1)
     \<Longrightarrow> wiggle a s = (Some e, s1)"
  by (simp add: wiggle_def)

lemma imageseis_prepare_error:
  "prepare_view ''Error: timesample_interval should be a list of two elements'' a s = (Inl e, s1)
     \<Longrightarrow> imageseis a s = (Inl e, s1)"
  by (simp add: imageseis_def)

text \<open>
  Claim C9. With the object's data matrix and header table allocated, a call of
  \<^verbatim>\<open>wiggle\<close> or \<^verbatim>\<open>imageseis\<close>, whatever its arguments and whether it returns or raises,
  leaves the object's fields and the contents of both arrays as they were: the slices and
  the clipping work on a copy and on a new array, and the assignments of the wiggle loop go
  to the clipped array. A slider change writes to no array at all.
\<close>

theorem source_dataset_unchanged:
  assumes "Data (self s) < next_free s" and "STH (self s) < next_free s"
  shows "self (snd (wiggle a s)) = self s
         \<and> store (snd (wiggle a s)) (Data (self s)) = store s (Data (self s))
         \<and> store (snd (wiggle a s)) (STH (self s)) = store s (STH (self s))
         \<and> self (snd (imageseis a s)) = self s
         \<and> store (snd (imageseis a s)) (Data (self s)) = store s (Data (self s))
         \<and> store (snd (imageseis a s)) (STH (self s)) = store s (STH (self s))
         \<and> self (snd (on_changed c v g s)) = self s
         \<and> store (snd (on_changed c v g s)) = store s"
proof -
  have w: "self (snd (wiggle a s)) = self s \<and> (\<forall>n<next_free s. store (snd (wiggle a s)) n = store s n)"
  proof -
    obtain r1 s1 where p: "prepare_view ''Error: trace_interval should be a list of two elements'' a s = (r1, s1)"
      by (cases "prepare_view ''Error: trace_interval should be a list of two elements'' a s")
    note fp = prepare_view_frame [OF p]
    show ?thesis
    proof (cases r1)
      case (Inl e)
      with p wiggle_prepare_error [of a s e s1] fp show ?thesis by simp
    next
      case (Inr w)
      obtain r s' where ws: "wiggle a s = (r, s')" by (cases "wiggle a s")
      from wiggle_after_prepare [OF p [unfolded Inr] ws] prepare_view_fresh [OF p [unfolded Inr]] fp ws
      show ?thesis by auto
    qed
  qed
  have i: "self (snd (imageseis a s)) = self s \<and> (\<forall>n<next_free s. store (snd (imageseis a s)) n = store s n)"
  proof -
    obtain r1 s1 where p: "prepare_view ''Error: timesample_interval should be a list of two elements'' a s = (r1, s1)"
      by (cases "prepare_view ''Error: timesample_interval should be a list of two elements'' a s")
    obtain r s' where ws: "imageseis a s = (r, s')" by (cases "imageseis a s")
    from imageseis_after_prepare [OF p ws] prepare_view_frame [OF p] ws show ?thesis by simp
  qed
  have u: "self (snd (on_changed c v g s)) = self s \<and> store (snd (on_changed c v g s)) = store s"
    by (simp add: on_changed_def update_def Let_def)
  from w i u assms show ?thesis by simp
qed

theorem source_dataset_unchanged_witness:
  "store (snd (wiggle default_args (example_state [[1, - 2], [3, 4], [- 5, 6]] None))) 0
     = [[1, - 2], [3, 4], [- 5, 6]]
   \<and> store (snd (wiggle default_args (example_state [[1, - 2], [3, 4], [- 5, 6]] None))) 3
     = [[0, 0], [3, 4], [0, 0]]
   \<and> self (snd (wiggle default_args (example_state [[1, - 2], [3, 4], [- 5, 6]] None)))
     = example_box"
proof -
  let ?s = "example_state [[1, - 2], [3, 4], [- 5, 6]] None"
  have h: "Data (self ?s) < next_free ?s" "STH (self ?s) < next_free ?s"
    by (simp_all add: example_state_def example_box_def)
  have d: "Data (self ?s) = 0" "self ?s = example_box"
          "store ?s 0 = [[1, - 2], [3, 4], [- 5, 6]]"
    by (simp_all add: example_state_def example_box_def)
  have w: "store (snd (wiggle default_args ?s)) 3 = [[0, 0], [3, 4], [0, 0]]"
    by code_simp
  from source_dataset_unchanged [OF h, of default_args] d w show ?thesis by simp
qed

section \<open>Malformed intervals and the caller's list\<close>


lemma prepare_view_exit:
  assumes bad: "bad_interval (trace_interval a) \<or> bad_interval (timesample_interval s)"
      and conv: "timewindow a \<longrightarrow>
                   (\<exists>l. timesample_interval s = Some l \<and> 2 \<le> length l \<and> dt (self s) \<noteq> 0)"
  shows "\<exists>s'. prepare_view msg a s = (Inl SystemExit, s') \<and> store s' = store s
           \<and> next_free s' = next_free s \<and> axes s' = axes s \<and> self s' = self s
           \<and> (\<exists>m. stdout s' \<noteq> [] \<and> last (stdout s') = PrintStr m)"
proof (cases "timewindow a")
  case False
  with bad show ?thesis
    by (auto simp: prepare_view_def check_intervals_def)
next
  case True
  with conv obtain l where l: "timesample_interval s = Some l" "2 \<le> length l" "dt (self s) \<noteq> 0"
    by blast
  let ?l2 = "l[0 := PyInt (trunc (num_val (l ! 0) / dt (self s))),
               1 := PyInt (trunc (num_val (l ! 1) / dt (self s)))]"
  let ?s1 = "s\<lparr>timesample_interval := Some ?l2, stdout := stdout s @ [PrintList ?l2]\<rparr>"
  have c: "convert_timewindow s = (None, ?s1)"
    using l by (simp add: convert_timewindow_def Let_def)
  have b: "bad_interval (trace_interval a) \<or> bad_interval (timesample_interval ?s1)"
    using bad l by (auto simp: bad_interval_def)
  show ?thesis
    using True c b by (auto simp: prepare_view_def check_intervals_def)
qed

text \<open>
  Claim C6, as the code has it. If the trace interval or the time interval is given with a
  length other than 2 (and, with \<^verbatim>\<open>timewindow\<close> set, the time interval has the two
  entries the conversion reads, and \<^verbatim>\<open>self.dt\<close> is not zero), both methods print an error
  message and raise \<^verbatim>\<open>SystemExit\<close> through \<^verbatim>\<open>sys.exit()\<close>, before the data is copied or
  sliced and before any call to the backend: the arrays, the allocation pointer, the
  backend calls and the object are as before the call.
\<close>

theorem malformed_interval_exits:
  assumes bad: "bad_interval (trace_interval a) \<or> bad_interval (timesample_interval s)"
      and conv: "timewindow a \<longrightarrow>
                   (\<exists>l. timesample_interval s = Some l \<and> 2 \<le> length l \<and> dt (self s) \<noteq> 0)"
  shows "fst (wiggle a s) = Some SystemExit
         \<and> store (snd (wiggle a s)) = store s
         \<and> next_free (snd (wiggle a s)) = next_free s
         \<and> axes (snd (wiggle a s)) = axes s
         \<and> self (snd (wiggle a s)) = self s
         \<and> (\<exists>m. last (stdout (snd (wiggle a s))) = PrintStr m)
         \<and> fst (imageseis a s) = Inl SystemExit
         \<and> store (snd (imageseis a s)) = store s
         \<and> next_free (snd (imageseis a s)) = next_free s
         \<and> axes (snd (imageseis a s)) = axes s
         \<and> self (snd (imageseis a s)) = self s
         \<and> (\<exists>m. last (stdout (snd (imageseis a s))) = PrintStr m)"
proof -
  from prepare_view_exit [OF bad conv, of "''Error: trace_interval should be a list of two elements''"]
  obtain s1 where p1:
    "prepare_view ''Error: trace_interval should be a list of two elements'' a s = (Inl SystemExit, s1)"
    "store s1 = store s" "next_free s1 = next_free s" "axes s1 = axes s" "self s1 = self s"
    "\<exists>m. last (stdout s1) = PrintStr m"
    by blast
  from prepare_view_exit [OF bad conv, of "''Error: timesample_interval should be a list of two elements''"]
  obtain s2 where p2:
    "prepare_view ''Error: timesample_interval should be a list of two elements'' a s = (Inl SystemExit, s2)"
    "store s2 = store s" "next_free s2 = next_free s" "axes s2 = axes s" "self s2 = self s"
    "\<exists>m. last (stdout s2) = PrintStr m"
    by blast
  from wiggle_prepare_error [OF p1(1)] imageseis_prepare_error [OF p2(1)] p1 p2
  show ?thesis by simp
qed

theorem malformed_interval_exits_witness:
  "fst (wiggle (default_args\<lparr>trace_interval := Some [PyInt 1, PyInt 2, PyInt 3]\<rparr>)
          (example_state [[1, 2], [3, 4]] None)) = Some SystemExit
   \<and> axes (snd (wiggle (default_args\<lparr>trace_interval := Some [PyInt 1, PyInt 2, PyInt 3]\<rparr>)
          (example_state [[1, 2], [3, 4]] None))) = []
   \<and> next_free (snd (wiggle (default_args\<lparr>trace_interval := Some [PyInt 1, PyInt 2, PyInt 3]\<rparr>)
          (example_state [[1, 2], [3, 4]] None))) = 2
   \<and> fst (imageseis (default_args\<lparr>trace_interval := Some [PyInt 1, PyInt 2, PyInt 3]\<rparr>)
          (example_state [[1, 2], [3, 4]] None)) = Inl SystemExit"
proof -
  let ?a = "default_args\<lparr>trace_interval := Some [PyInt 1, PyInt 2, PyInt 3]\<rparr>"
  let ?s = "example_state [[1, 2], [3, 4]] None"
  have bad: "bad_interval (trace_interval ?a) \<or> bad_interval (timesample_interval ?s)"
    by (simp add: bad_interval_def)
  have conv: "timewindow ?a \<longrightarrow>
                (\<exists>l. timesample_interval ?s = Some l \<and> 2 \<le> length l \<and> dt (self ?s) \<noteq> 0)"
    by (simp add: default_args_def)
  have e: "axes ?s = []" "next_free ?s = 2"
    by (simp_all add: example_state_def)
  from malformed_interval_exits [OF bad conv] e show ?thesis by simp
qed

text \<open>
  Claim C6 as stated fails where the conversion of lines 139-145 runs into the short list
  first: with \<^verbatim>\<open>timewindow=True\<close> and a time interval of one entry the call raises
  \<^verbatim>\<open>IndexError\<close>, without the message. And the error of a three-entry trace interval is
  the interpreter's exit request \<^verbatim>\<open>SystemExit\<close>.
\<close>

theorem malformed_interval_counterexample:
  "wiggle (default_args\<lparr>timewindow := True\<rparr>) (example_state [[1, 2], [3, 4]] (Some [PyFloat (1 / 10)]))
     = (Some IndexError, example_state [[1, 2], [3, 4]] (Some [PyFloat (1 / 10)]))
   \<and> fst (imageseis (default_args\<lparr>timewindow := True\<rparr>)
            (example_state [[1, 2], [3, 4]] (Some [PyFloat (1 / 10)]))) = Inl IndexError
   \<and> fst (wiggle (default_args\<lparr>trace_interval := Some [PyInt 1, PyInt 2, PyInt 3]\<rparr>)
            (example_state [[1, 2], [3, 4]] None)) = Some SystemExit"
  by (simp add: wiggle_def imageseis_def prepare_view_def convert_timewindow_def
      check_intervals_def bad_interval_def default_args_def example_state_def)

lemma prepare_view_tsi:
  "prepare_view msg a s = (r, s') \<Longrightarrow>
     timesample_interval s'
       = timesample_interval (snd (if timewindow a then convert_timewindow s else (None, s)))"
  by (auto simp: prepare_view_def check_intervals_def alloc_def
           split: prod.splits option.splits sum.splits if_splits)

text \<open>
  Claim C10. With \<^verbatim>\<open>timewindow\<close> set, a time interval of at least two entries and a
  non-zero \<^verbatim>\<open>self.dt\<close>, after a call of \<^verbatim>\<open>wiggle\<close> or \<^verbatim>\<open>imageseis\<close> (returning or
  raising later) the caller's list holds \<^verbatim>\<open>int(entry / self.dt)\<close> in its first two places:
  integers, so an entry that was a float of seconds is no longer there.
\<close>

theorem timewindow_overwrites_list:
  assumes "timewindow a" and "timesample_interval s = Some l" and "2 \<le> length l"
      and "dt (self s) \<noteq> 0"
  shows "timesample_interval (snd (wiggle a s))
           = Some (l[0 := PyInt (trunc (num_val (l ! 0) / dt (self s))),
                     1 := PyInt (trunc (num_val (l ! 1) / dt (self s)))])
         \<and> timesample_interval (snd (imageseis a s))
           = Some (l[0 := PyInt (trunc (num_val (l ! 0) / dt (self s))),
                     1 := PyInt (trunc (num_val (l ! 1) / dt (self s)))])
         \<and> (\<forall>q. l ! 0 = PyFloat q \<longrightarrow>
               the (timesample_interval (snd (wiggle a s))) ! 0 \<noteq> l ! 0
               \<and> the (timesample_interval (snd (imageseis a s))) ! 0 \<noteq> l ! 0)
         \<and> (\<forall>q. l ! 1 = PyFloat q \<longrightarrow>
               the (timesample_interval (snd (wiggle a s))) ! 1 \<noteq> l ! 1
               \<and> the (timesample_interval (snd (imageseis a s))) ! 1 \<noteq> l ! 1)"
proof -
  let ?l2 = "l[0 := PyInt (trunc (num_val (l ! 0) / dt (self s))),
               1 := PyInt (trunc (num_val (l ! 1) / dt (self s)))]"
  have c: "timesample_interval (snd (if timewindow a then convert_timewindow s else (None, s)))
             = Some ?l2"
    using assms by (simp add: convert_timewindow_def Let_def)
  have w: "timesample_interval (snd (wiggle a s)) = Some ?l2"
  proof -
    obtain r1 s1 where p: "prepare_view ''Error: trace_interval should be a list of two elements'' a s = (r1, s1)"
      by (cases "prepare_view ''Error: trace_interval should be a list of two elements'' a s")
    note t = prepare_view_tsi [OF p, unfolded c]
    show ?thesis
    proof (cases r1)
      case (Inl e)
      with p wiggle_prepare_error [of a s e s1] t show ?thesis by simp
    next
      case (Inr w)
      obtain r s' where ws: "wiggle a s = (r, s')" by (cases "wiggle a s")
      from wiggle_after_prepare [OF p [unfolded Inr] ws] t ws show ?thesis by simp
    qed
  qed
  have i: "timesample_interval (snd (imageseis a s)) = Some ?l2"
  proof -
    obtain r1 s1 where p: "prepare_view ''Error: timesample_interval should be a list of two elements'' a s = (r1, s1)"
      by (cases "prepare_view ''Error: timesample_interval should be a list of two elements'' a s")
    obtain r s' where ws: "imageseis a s = (r, s')" by (cases "imageseis a s")
    from imageseis_after_prepare [OF p ws] prepare_view_tsi [OF p, unfolded c] ws
    show ?thesis by simp
  qed
  from assms(3) have n: "0 < length l" "1 < length l" by linarith+
  have e0: "?l2 ! 0 = PyInt (trunc (num_val (l ! 0) / dt (self s)))"
    using n by (simp add: nth_list_update)
  have e1: "?l2 ! 1 = PyInt (trunc (num_val (l ! 1) / dt (self s)))"
    using n by (simp add: nth_list_update)
  have "\<forall>q. l ! 0 = PyFloat q \<longrightarrow> ?l2 ! 0 \<noteq> l ! 0"
    unfolding e0 by simp
  moreover have "\<forall>q. l ! 1 = PyFloat q \<longrightarrow> ?l2 ! 1 \<noteq> l ! 1"
    unfolding e1 by simp
  ultimately show ?thesis
    unfolding w i option.sel by blast
qed

theorem timewindow_overwrites_list_witness:
  "timesample_interval
     (snd (wiggle (default_args\<lparr>timewindow := True\<rparr>)
            (example_state [[1, 2], [3, 4]] (Some [PyFloat (1 / 10), PyFloat (3 / 10)]))))
     = Some [PyInt 50, PyInt 150]
   \<and> timesample_interval
     (snd (imageseis (default_args\<lparr>timewindow := True\<rparr>)
            (example_state [[1, 2], [3, 4]] (Some [PyFloat (1 / 10), PyFloat (3 / 10)]))))
     = Some [PyInt 50, PyInt 150]"
proof -
  let ?a = "default_args\<lparr>timewindow := True\<rparr>"
  let ?l = "[PyFloat (1 / 10), PyFloat (3 / 10)]"
  let ?s = "example_state [[1, 2], [3, 4]] (Some ?l)"
  have h: "timewindow ?a" "timesample_interval ?s = Some ?l" "2 \<le> length ?l"
          "dt (self ?s) \<noteq> 0"
    by (simp_all add: example_state_def example_box_def)
  have d: "dt (self ?s) = 1 / 500"
    by (simp add: example_state_def example_box_def)
  from timewindow_overwrites_list [OF h] show ?thesis
    by (simp add: d trunc_def)
qed

section \<open>The colour limits of the image, and the time window\<close>

lemma np_max_Max: "np_max xs = Inr m \<Longrightarrow> xs \<noteq> [] \<and> m = Max (set xs)"
proof (cases xs)
  case Nil
  assume "np_max xs = Inr m"
  with Nil show ?thesis by (simp add: np_max_def)
next
  case (Cons y ys)
  assume "np_max xs = Inr m"
  with Cons have "m = fold max ys y" by (simp add: np_max_def)
  with Max.set_eq_fold [of y ys] Cons show ?thesis by simp
qed

lemma prepare_view_clipped:
  assumes "prepare_view msg a s = (Inr w, s1)"
  shows "percentile_clip
           (select_range (trace_interval a) (timesample_interval s1) (store s (Data (self s))))
           (perc a) = Inr (store s1 w)"
proof -
  obtain r1 t1 where c1: "(if timewindow a then convert_timewindow s else (None, s)) = (r1, t1)"
    by (cases "if timewindow a then convert_timewindow s else (None, s)")
  then have f1: "store t1 = store s \<and> next_free t1 = next_free s \<and> self t1 = self s
                 \<and> axes t1 = axes s"
    using convert_timewindow_frame [of s r1 t1] by (auto split: if_splits)
  obtain r2 t2 where c2: "check_intervals msg a t1 = (r2, t2)"
    by (cases "check_intervals msg a t1")
  note f2 = check_intervals_frame [OF c2]
  show ?thesis
    using assms c1 c2 f1 f2
    by (auto simp: prepare_view_def alloc_def split: option.splits sum.splits)
qed

text \<open>
  Claim C3, as the code has it. Whenever \<^verbatim>\<open>imageseis\<close> returns its raster, the colour
  limits are \<open>[-maxval, maxval]\<close> with \<open>maxval\<close> the maximum of the clipped view (not of
  its absolute values, and without the gain), and the raster is drawn over the clipped
  view times the gain.
\<close>

theorem imageseis_color_limits:
  assumes "imageseis a s = (Inr g, s')"
  shows "\<exists>w s1 Dmax.
           prepare_view ''Error: timesample_interval should be a list of two elements'' a s
             = (Inr w, s1)
           \<and> percentile_clip
               (select_range (trace_interval a) (timesample_interval s1)
                  (store s (Data (self s))))
               (perc a) = Inr (store s1 w)
           \<and> np_max (concat (store s1 w)) = Inr Dmax
           \<and> Dmax = Max (set (concat (store s1 w)))
           \<and> clim g = (Fin (- Dmax), Fin Dmax)
           \<and> img_C g = map (map (\<lambda>v. v * gain a)) (store s1 w)
           \<and> Pcolormesh (img_x g) (img_t g) (img_C g) (- Dmax) Dmax \<in> set (axes s')"
proof -
  obtain r1 s1 where p: "prepare_view ''Error: timesample_interval should be a list of two elements'' a s = (r1, s1)"
    by (cases "prepare_view ''Error: timesample_interval should be a list of two elements'' a s")
  with assms obtain w where w: "r1 = Inr w"
    by (cases r1) (auto simp: imageseis_def)
  note p = p [unfolded w]
  from assms p obtain Dmax where m: "np_max (concat (store s1 w)) = Inr Dmax"
    by (cases "np_max (concat (store s1 w))") (auto simp: imageseis_def Let_def)
  obtain rx s2 where x: "imageseis_x a (nrows (store s1 w)) (ncols (store s1 w)) s1 = (rx, s2)"
    by (cases "imageseis_x a (nrows (store s1 w)) (ncols (store s1 w)) s1")
  from assms p m x have
    "clim g = (Fin (- Dmax), Fin Dmax)
     \<and> img_C g = map (map (\<lambda>v. v * gain a)) (store s1 w)
     \<and> Pcolormesh (img_x g) (img_t g) (img_C g) (- Dmax) Dmax \<in> set (axes s')"
    by (auto simp: imageseis_def Let_def split: sum.splits prod.splits)
  with p m np_max_Max [OF m] prepare_view_clipped [OF p] show ?thesis by blast
qed

text \<open>
  Claim C3 as stated multiplies the maximum by the gain. On the view \<open>[[1,2],[3,4]]\<close> with
  gain 2 the limits the code sets are \<open>[-4, 4]\<close> over the data \<open>[[2,4],[6,8]]\<close>; the stated
  value is 8.
\<close>

theorem imageseis_color_limits_counterexample:
  "map_sum id clim (fst (imageseis (default_args\<lparr>gain := 2\<rparr>) (example_state [[1, 2], [3, 4]] None)))
     = Inr (Fin (- 4), Fin 4)
   \<and> axes (snd (imageseis (default_args\<lparr>gain := 2\<rparr>) (example_state [[1, 2], [3, 4]] None))) ! 1
     = Pcolormesh [1, 2] [0, 1] [[2, 4], [6, 8]] (- 4) 4
   \<and> spec_maxval [[1, 2], [3, 4]] 2 = Inr 8"
  by code_simp

theorem imageseis_color_limits_witness:
  "\<exists>g s'. imageseis (default_args\<lparr>gain := 2\<rparr>) (example_state [[1, 2], [3, 4]] None) = (Inr g, s')
     \<and> clim g = (Fin (- 4), Fin 4) \<and> img_C g = [[2, 4], [6, 8]]"
proof -
  let ?a = "default_args\<lparr>gain := 2\<rparr>"
  let ?s = "example_state [[1, 2], [3, 4]] None"
  have e: "fst (imageseis ?a ?s)
             = Inr \<lparr>img_x = [1, 2], img_t = [0, 1], img_C = [[2, 4], [6, 8]],
                    clim = (Fin (- 4), Fin 4),
                    s_cmax = \<lparr>valmin = 0, valmax = 4, val = 4\<rparr>,
                    s_cmin = \<lparr>valmin = - 4, valmax = 0, val = - 4\<rparr>,
                    s_gain = \<lparr>valmin = 2, valmax = 20, val = 2\<rparr>\<rparr>"
    by code_simp
  then obtain g s' where i: "imageseis ?a ?s = (Inr g, s')"
    by (cases "imageseis ?a ?s") auto
  from imageseis_color_limits [OF i] i e show ?thesis by auto
qed



section \<open>The wiggle loop\<close>

lemma curves_append: "curves (cs @ ds) = curves cs @ curves ds"
  by (induction cs rule: curves.induct) simp_all

lemma column_setitem_other: "j \<noteq> i \<Longrightarrow> column (setitem E r i v) j = column E j"
proof (cases "r < length E")
  case True
  assume "j \<noteq> i"
  with True show ?thesis
    by (intro nth_equalityI) (auto simp: column_def setitem_def nth_list_update)
next
  case False
  then have "length E \<le> r" by simp
  then show ?thesis by (simp add: setitem_def list_update_beyond)
qed

lemma column_setitem_same:
  "r < length E \<Longrightarrow> i < length (E ! r) \<Longrightarrow> column (setitem E r i v) i = (column E i)[r := v]"
  by (rule nth_equalityI) (auto simp: column_def setitem_def nth_list_update)

lemma length_setitem: "length (setitem E r i v) = length E"
  by (simp add: setitem_def)

lemma rows_setitem:
  "\<forall>r\<in>set E. length r = n \<Longrightarrow> \<forall>r\<in>set (setitem E q i v). length r = n"
proof (cases "q < length E")
  case True
  assume a: "\<forall>r\<in>set E. length r = n"
  have "set (E[q := (E ! q)[i := v]]) \<subseteq> insert ((E ! q)[i := v]) (set E)"
    by (rule set_update_subset_insert)
  moreover have "length ((E ! q)[i := v]) = n" using a True by simp
  ultimately show ?thesis using a by (auto simp: setitem_def)
next
  case False
  assume a: "\<forall>r\<in>set E. length r = n"
  from False have "length E \<le> q" by simp
  with a show ?thesis by (simp add: setitem_def list_update_beyond)
qed

lemma column_zero_neg_other:
  "j \<noteq> i \<Longrightarrow> column (map (\<lambda>r. r[i := (if r ! i < 0 then 0 else r ! i)]) E) j = column E j"
  by (simp add: column_def)

text \<open>One run of the loop body on a rectangular, non-empty working array.\<close>

lemma wiggle_trace_step:
  assumes E: "store s w = E" "E \<noteq> []" "\<forall>r\<in>set E. length r = n" and i: "i < n" "i < length xs"
  shows "\<exists>s'. wiggle_trace a k xs ts dx maxval w i s = (None, s')
           \<and> curves (axes s')
               = curves (axes s) @ [map (offset_sample (xs ! i) (gain a) k dx maxval) (pinned (column E i))]
           \<and> length (store s' w) = length E
           \<and> (\<forall>r\<in>set (store s' w). length r = n)
           \<and> (\<forall>j. j \<noteq> i \<longrightarrow> column (store s' w) j = column E j)"
proof -
  let ?D1 = "setitem E 0 i 0"
  let ?D2 = "setitem ?D1 (length ?D1 - 1) i 0"
  have l0: "0 < length E" using E(2) by simp
  have r0: "i < length (E ! 0)" using E(3) l0 i(1) by simp
  have r1: "i < length (?D1 ! (length E - 1))"
    using rows_setitem [OF E(3), of 0 i 0] l0 i(1) by (simp add: length_setitem)
  have c: "column ?D2 i = pinned (column E i)"
    using l0 r0 r1
    by (simp add: column_setitem_same length_setitem pinned_def) (simp add: column_def)
  have x: "py_index xs (int i) = Inr (xs ! i)"
    using i(2) by (simp add: py_index_def)
  have sh: "\<forall>r\<in>set ?D2. length r = n"
    by (intro rows_setitem E(3))
  have oth: "\<forall>j. j \<noteq> i \<longrightarrow> column ?D2 j = column E j"
    by (simp add: column_setitem_other)
  show ?thesis
    using E(1,2) c x sh oth
    by (auto simp: wiggle_trace_def Let_def curves_append length_setitem column_zero_neg_other)
qed

lemma wiggle_trace_index:
  assumes "store s w \<noteq> []" and "wiggle_trace a k xs ts dx maxval w i s = (None, s')"
  shows "i < length xs"
  using assms
  by (auto simp: wiggle_trace_def Let_def py_index_def split: sum.splits if_splits)

lemma wiggle_loop_curves:
  assumes "store s w = E" and "E \<noteq> []" and "\<forall>r\<in>set E. length r = n" and "distinct idx"
      and "\<forall>i\<in>set idx. i < n \<and> i < length xs"
      and "\<forall>i\<in>set idx. column E i = column D i" and "length D = length E"
  shows "\<exists>s'. wiggle_loop a k xs ts dx maxval w idx s = (None, s')
           \<and> curves (axes s')
               = curves (axes s)
                 @ map (\<lambda>i. map (offset_sample (xs ! i) (gain a) k dx maxval) (pinned (column D i))) idx"
  using assms
proof (induction idx arbitrary: s E)
  case Nil
  then show ?case by simp
next
  case (Cons i rest)
  from Cons.prems have i: "i < n" "i < length xs" by simp_all
  from wiggle_trace_step [OF Cons.prems(1,2,3) i, of a k ts dx maxval]
  obtain s1 where t: "wiggle_trace a k xs ts dx maxval w i s = (None, s1)"
      "curves (axes s1)
         = curves (axes s) @ [map (offset_sample (xs ! i) (gain a) k dx maxval) (pinned (column E i))]"
      "length (store s1 w) = length E" "\<forall>r\<in>set (store s1 w). length r = n"
      "\<forall>j. j \<noteq> i \<longrightarrow> column (store s1 w) j = column E j"
    by blast
  have ne: "store s1 w \<noteq> []" using t(3) Cons.prems(2) by auto
  have cols: "\<forall>j\<in>set rest. column (store s1 w) j = column D j"
    using t(5) Cons.prems(4,6) by auto
  have "\<exists>s'. wiggle_loop a k xs ts dx maxval w rest s1 = (None, s')
           \<and> curves (axes s')
               = curves (axes s1)
                 @ map (\<lambda>i. map (offset_sample (xs ! i) (gain a) k dx maxval) (pinned (column D i))) rest"
    using Cons.prems(4,5,7) t(3)
    by (intro Cons.IH [OF refl ne t(4) _ _ cols]) simp_all
  then obtain s' where l: "wiggle_loop a k xs ts dx maxval w rest s1 = (None, s')"
      "curves (axes s')
         = curves (axes s1)
           @ map (\<lambda>i. map (offset_sample (xs ! i) (gain a) k dx maxval) (pinned (column D i))) rest"
    by blast
  have "column E i = column D i" using Cons.prems(6) by simp
  with t(1,2) l show ?case by simp
qed

lemma wiggle_loop_index:
  assumes "wiggle_loop a k xs ts dx maxval w idx s = (None, s')" and "store s w = E"
      and "E \<noteq> []" and "\<forall>r\<in>set E. length r = n" and "\<forall>i\<in>set idx. i < n"
  shows "\<forall>i\<in>set idx. i < length xs"
  using assms
proof (induction idx arbitrary: s E)
  case Nil
  then show ?case by simp
next
  case (Cons i rest)
  obtain r1 s1 where t: "wiggle_trace a k xs ts dx maxval w i s = (r1, s1)"
    by (cases "wiggle_trace a k xs ts dx maxval w i s")
  with Cons.prems(1) have r1: "r1 = None" and l: "wiggle_loop a k xs ts dx maxval w rest s1 = (None, s')"
    by (cases r1; simp)+
  from Cons.prems(2,3) have "store s w \<noteq> []" by simp
  from wiggle_trace_index [OF this t [unfolded r1]] have i: "i < length xs" .
  from Cons.prems(5) have "i < n" by simp
  from wiggle_trace_step [OF Cons.prems(2,3,4) this i, of a k ts dx maxval] t r1
  have sh: "length (store s1 w) = length E" "\<forall>r\<in>set (store s1 w). length r = n"
    by auto
  with Cons.prems(3) have ne: "store s1 w \<noteq> []" by auto
  from Cons.prems(5) have "\<forall>i\<in>set rest. i < n" by simp
  from Cons.IH [OF l refl ne sh(2) this] i show ?case by simp
qed

section \<open>The view is rectangular, and what a successful wiggle call ran through\<close>

lemma prepare_view_axes:
  "prepare_view msg a s = (r, s') \<Longrightarrow> axes s' = axes s"
  using prepare_view_frame by blast

lemma nth_percentile_nonempty: "nth_percentile D p = Inr b \<Longrightarrow> concat D \<noteq> []"
  by (auto simp: nth_percentile_def np_percentile_def Let_def split: if_splits sum.splits)


lemma rect_iff: "rect D \<longleftrightarrow> (\<exists>n. \<forall>r\<in>set D. length r = n)"
  by (cases D) (auto simp: rect_def ncols_def list_all_iff)

lemma rect_rows: "rect D \<Longrightarrow> \<forall>r\<in>set D. length r = ncols D"
  by (simp add: rect_def list_all_iff)

lemma length_py_slice:
  "length (py_slice a b xs)
     = min (slice_bound (length xs) b - slice_bound (length xs) a)
           (length xs - slice_bound (length xs) a)"
  by (simp add: py_slice_def Let_def)

lemma rect_select_range: "rect D \<Longrightarrow> rect (select_range tr ts D)"
proof -
  assume "rect D"
  then obtain n where n: "\<forall>r\<in>set D. length r = n" by (auto simp: rect_iff)
  have cols: "rect (map (py_slice a b) D)" for a b
    unfolding rect_iff using n by (auto simp: length_py_slice)
  have rows: "rect E \<Longrightarrow> rect (py_slice a b E)" for a b and E :: matrix
    unfolding rect_iff py_slice_def Let_def
    by (meson in_set_dropD in_set_takeD)
  show ?thesis
    using \<open>rect D\<close> cols rows
    by (auto simp: select_range_def Let_def split: option.splits)
qed

lemma prepare_view_rect:
  assumes "rect (store s (Data (self s)))" and "prepare_view msg a s = (Inr w, s1)"
  shows "store s1 w \<noteq> [] \<and> (\<forall>r\<in>set (store s1 w). length r = ncols (store s1 w))"
proof -
  let ?V = "select_range (trace_interval a) (timesample_interval s1) (store s (Data (self s)))"
  from prepare_view_clipped [OF assms(2)]
  have c: "percentile_clip ?V (perc a) = Inr (store s1 w)" .
  then obtain b where nb: "nth_percentile ?V (perc a) = Inr b"
    by (cases "nth_percentile ?V (perc a)") (auto simp: percentile_clip_def)
  with c have b: "store s1 w = map (map (np_clip (- b) b)) ?V" "concat ?V \<noteq> []"
    by (auto simp: percentile_clip_def dest: nth_percentile_nonempty)
  have "rect ?V" by (rule rect_select_range [OF assms(1)])
  then obtain n where "\<forall>r\<in>set ?V. length r = n"
    unfolding rect_iff by blast
  with b(1) have "rect (store s1 w)" by (auto simp: rect_iff)
  with b show ?thesis by (auto dest: rect_rows)
qed

lemma range_step_indices:
  "range_step n k = Inr idx \<Longrightarrow> distinct idx \<and> (\<forall>i\<in>set idx. i < n)"
  by (auto simp: range_step_def split: if_splits)

lemma wiggle_x_curves:
  "wiggle_x a n s = (r, s') \<Longrightarrow> curves (axes s') = curves (axes s)"
  by (auto simp: wiggle_x_def curves_append split: option.splits sum.splits)

lemma wiggle_finish_curves:
  "wiggle_finish xs ts yl s = (r, s') \<Longrightarrow> curves (axes s') = curves (axes s)"
  by (auto simp: wiggle_finish_def Let_def curves_append split: sum.splits)

lemma wiggle_success:
  assumes "wiggle a s = (None, s')"
  shows "\<exists>w s1 xs s2 ts yl x0 x1 Dmax idx s3.
           prepare_view ''Error: trace_interval should be a list of two elements'' a s = (Inr w, s1)
           \<and> wiggle_x a (ncols (store s1 w)) s1 = (Inr xs, s2)
           \<and> t_axis (arg_t a) (timesample_interval s2) (nrows (store s1 w)) = Inr (ts, yl)
           \<and> py_index xs 1 = Inr x1 \<and> py_index xs 0 = Inr x0
           \<and> np_max (concat (store s2 w)) = Inr Dmax
           \<and> range_step (ncols (store s1 w)) (effective_skipt (skipt a) (ncols (store s1 w)))
               = Inr idx
           \<and> wiggle_loop a (effective_skipt (skipt a) (ncols (store s1 w))) xs ts (x1 - x0)
                \<bar>Dmax\<bar> w idx s2 = (None, s3)
           \<and> wiggle_finish xs ts yl s3 = (None, s')"
  using assms
  by (auto simp: wiggle_def Let_def split: prod.splits sum.splits option.splits)

lemma pinned_ends:
  "tr \<noteq> [] \<Longrightarrow> pinned tr ! 0 = 0 \<and> pinned tr ! (length tr - 1) = 0"
  by (cases "length tr - 1 = 0") (auto simp: pinned_def nth_list_update)

lemma offset_sample_finite:
  "maxval \<noteq> 0 \<Longrightarrow>
     offset_sample xi g k dx maxval v
       = Fin (np_clip (xi - dx) (xi + dx) (xi + g * of_int k * dx * v / maxval))"
  by (simp add: offset_sample_def np_divide_def add.commute)

lemma np_clip_between: "lo \<le> hi \<Longrightarrow> lo \<le> np_clip lo hi v \<and> np_clip lo hi v \<le> hi"
  by (auto simp: np_clip_def min_def max_def)

section \<open>The plotted traces\<close>

text \<open>
  Claim C5, as the code has it. When \<^verbatim>\<open>wiggle\<close> returns on a rectangular data matrix, it
  has drawn one curve for each index \<open>i\<close> of \<^verbatim>\<open>range(0, ntraces, skipt)\<close>, in order: the
  trace \<open>i\<close> of the clipped view with its first and last sample set to zero, each sample
  \<open>v\<close> mapped to \<^verbatim>\<open>x[i] + gain * skipt * dx * v / maxval\<close> and clipped to
  \<^verbatim>\<open>[x[i]-dx, x[i]+dx]\<close>, where \<^verbatim>\<open>dx = x[1]-x[0]\<close> and \<^verbatim>\<open>maxval\<close> is the absolute value of the
  maximum of the clipped view. With a non-zero maximum and \<open>dx \<ge> 0\<close> every plotted sample
  lies within \<open>dx\<close> of its baseline and the two pinned samples are plotted on the baseline.
\<close>

theorem wiggle_offset_traces:
  assumes "rect (store s (Data (self s)))" and "wiggle a s = (None, s')"
  shows "\<exists>w s1 xs x0 x1 Dmax idx k.
           prepare_view ''Error: trace_interval should be a list of two elements'' a s = (Inr w, s1)
           \<and> fst (wiggle_x a (ncols (store s1 w)) s1) = Inr xs
           \<and> py_index xs 0 = Inr x0 \<and> py_index xs 1 = Inr x1
           \<and> np_max (concat (store s1 w)) = Inr Dmax
           \<and> Dmax = Max (set (concat (store s1 w)))
           \<and> k = effective_skipt (skipt a) (ncols (store s1 w))
           \<and> range_step (ncols (store s1 w)) k = Inr idx
           \<and> curves (axes s')
               = curves (axes s)
                 @ map (\<lambda>i. map (offset_sample (xs ! i) (gain a) k (x1 - x0) \<bar>Dmax\<bar>)
                               (pinned (column (store s1 w) i))) idx
           \<and> (\<forall>i\<in>set idx. i < length xs
                 \<and> pinned (column (store s1 w) i) ! 0 = 0
                 \<and> pinned (column (store s1 w) i) ! (nrows (store s1 w) - 1) = 0)
           \<and> (Dmax \<noteq> 0 \<longrightarrow>
                 (\<forall>xi v. offset_sample xi (gain a) k (x1 - x0) \<bar>Dmax\<bar> v
                    = Fin (np_clip (xi - (x1 - x0)) (xi + (x1 - x0))
                             (xi + gain a * of_int k * (x1 - x0) * v / \<bar>Dmax\<bar>))))
           \<and> (Dmax \<noteq> 0 \<and> 0 \<le> x1 - x0 \<longrightarrow>
                 (\<forall>xi v. \<exists>y. offset_sample xi (gain a) k (x1 - x0) \<bar>Dmax\<bar> v = Fin y
                    \<and> xi - (x1 - x0) \<le> y \<and> y \<le> xi + (x1 - x0))
                 \<and> (\<forall>xi. offset_sample xi (gain a) k (x1 - x0) \<bar>Dmax\<bar> 0 = Fin xi))"
proof -
  from wiggle_success [OF assms(2)]
  obtain w s1 xs s2 ts yl x0 x1 Dmax idx s3 where
    p: "prepare_view ''Error: trace_interval should be a list of two elements'' a s = (Inr w, s1)"
    and x: "wiggle_x a (ncols (store s1 w)) s1 = (Inr xs, s2)"
    and i: "py_index xs 1 = Inr x1" "py_index xs 0 = Inr x0"
    and m: "np_max (concat (store s2 w)) = Inr Dmax"
    and r: "range_step (ncols (store s1 w)) (effective_skipt (skipt a) (ncols (store s1 w)))
              = Inr idx"
    and l: "wiggle_loop a (effective_skipt (skipt a) (ncols (store s1 w))) xs ts (x1 - x0)
              \<bar>Dmax\<bar> w idx s2 = (None, s3)"
    and f: "wiggle_finish xs ts yl s3 = (None, s')"
    by blast
  let ?D = "store s1 w" and ?k = "effective_skipt (skipt a) (ncols (store s1 w))"
  let ?dx = "x1 - x0"
  from wiggle_x_frame [OF x] have st: "store s2 w = ?D" by simp
  from prepare_view_rect [OF assms(1) p]
  have ne: "?D \<noteq> []" and rows: "\<forall>r\<in>set ?D. length r = ncols ?D" by simp_all
  from range_step_indices [OF r] have d: "distinct idx" and b: "\<forall>i\<in>set idx. i < ncols ?D"
    by simp_all
  from wiggle_loop_index [OF l st ne rows b] have ix: "\<forall>i\<in>set idx. i < length xs" .
  from b ix have bx: "\<forall>i\<in>set idx. i < ncols ?D \<and> i < length xs" by simp
  from wiggle_loop_curves [OF st ne rows d bx, of ?D a ?k ts ?dx "\<bar>Dmax\<bar>"] l
  have c3: "curves (axes s3)
              = curves (axes s2)
                @ map (\<lambda>i. map (offset_sample (xs ! i) (gain a) ?k ?dx \<bar>Dmax\<bar>)
                              (pinned (column ?D i))) idx"
    by simp
  have c: "curves (axes s')
              = curves (axes s)
                @ map (\<lambda>i. map (offset_sample (xs ! i) (gain a) ?k ?dx \<bar>Dmax\<bar>)
                              (pinned (column ?D i))) idx"
    using c3 wiggle_finish_curves [OF f] wiggle_x_curves [OF x] prepare_view_axes [OF p]
    by simp
  have col: "column ?D j \<noteq> [] \<and> length (column ?D j) = nrows ?D" for j
    using ne by (simp add: column_def nrows_def)
  have e: "\<forall>i\<in>set idx. i < length xs
             \<and> pinned (column ?D i) ! 0 = 0
             \<and> pinned (column ?D i) ! (nrows ?D - 1) = 0"
  proof
    fix j assume "j \<in> set idx"
    with ix have "j < length xs" by simp
    moreover from pinned_ends [of "column ?D j"] col [of j]
    have "pinned (column ?D j) ! 0 = 0 \<and> pinned (column ?D j) ! (nrows ?D - 1) = 0" by simp
    ultimately show "j < length xs \<and> pinned (column ?D j) ! 0 = 0
                       \<and> pinned (column ?D j) ! (nrows ?D - 1) = 0" by simp
  qed
  have fin: "Dmax \<noteq> 0 \<longrightarrow>
               (\<forall>xi v. offset_sample xi (gain a) ?k ?dx \<bar>Dmax\<bar> v
                  = Fin (np_clip (xi - ?dx) (xi + ?dx)
                           (xi + gain a * of_int ?k * ?dx * v / \<bar>Dmax\<bar>)))"
    by (simp add: offset_sample_finite)
  have bnd: "Dmax \<noteq> 0 \<and> 0 \<le> ?dx \<longrightarrow>
               (\<forall>xi v. \<exists>y. offset_sample xi (gain a) ?k ?dx \<bar>Dmax\<bar> v = Fin y
                  \<and> xi - ?dx \<le> y \<and> y \<le> xi + ?dx)
               \<and> (\<forall>xi. offset_sample xi (gain a) ?k ?dx \<bar>Dmax\<bar> 0 = Fin xi)"
  proof (intro impI conjI allI)
    fix xi v
    assume h: "Dmax \<noteq> 0 \<and> 0 \<le> ?dx"
    then have o: "xi - ?dx \<le> xi + ?dx" by simp
    from np_clip_between [OF o] h
    show "\<exists>y. offset_sample xi (gain a) ?k ?dx \<bar>Dmax\<bar> v = Fin y
            \<and> xi - ?dx \<le> y \<and> y \<le> xi + ?dx"
      by (simp add: offset_sample_finite)
  next
    fix xi
    assume h: "Dmax \<noteq> 0 \<and> 0 \<le> ?dx"
    then show "offset_sample xi (gain a) ?k ?dx \<bar>Dmax\<bar> 0 = Fin xi"
      by (simp add: offset_sample_finite np_clip_def)
  qed
  from np_max_Max [OF m] st have mx: "Dmax = Max (set (concat ?D))" by simp
  from m st have m1: "np_max (concat ?D) = Inr Dmax" by simp
  from x have x1: "fst (wiggle_x a (ncols ?D) s1) = Inr xs" by simp
  show ?thesis
    using p x1 i m1 mx r c e fin bnd by blast
qed

theorem wiggle_offset_traces_witness:
  "rect (store (example_state [[1, - 2], [3, 4], [- 5, 6]] None)
           (Data (self (example_state [[1, - 2], [3, 4], [- 5, 6]] None))))
   \<and> fst (wiggle default_args (example_state [[1, - 2], [3, 4], [- 5, 6]] None)) = None
   \<and> curves (axes (snd (wiggle default_args (example_state [[1, - 2], [3, 4], [- 5, 6]] None))))
       = [[Fin 0, Fin (1 / 2), Fin 0], [Fin 1, Fin (5 / 3), Fin 1]]
   \<and> (\<exists>w s1 Dmax.
         prepare_view ''Error: trace_interval should be a list of two elements'' default_args
           (example_state [[1, - 2], [3, 4], [- 5, 6]] None) = (Inr w, s1)
         \<and> np_max (concat (store s1 w)) = Inr Dmax)"
proof -
  let ?s = "example_state [[1, - 2], [3, 4], [- 5, 6]] None"
  have h1: "rect (store ?s (Data (self ?s)))"
    by code_simp
  have n: "fst (wiggle default_args ?s) = None"
    by code_simp
  then have h2: "wiggle default_args ?s = (None, snd (wiggle default_args ?s))"
    by (cases "wiggle default_args ?s") simp
  have c: "curves (axes (snd (wiggle default_args ?s)))
             = [[Fin 0, Fin (1 / 2), Fin 0], [Fin 1, Fin (5 / 3), Fin 1]]"
    by code_simp
  from wiggle_offset_traces [OF h1 h2] obtain w s1 Dmax where
    "prepare_view ''Error: trace_interval should be a list of two elements'' default_args ?s
       = (Inr w, s1)"
    "np_max (concat (store s1 w)) = Inr Dmax"
    by (elim exE conjE) (rule that)
  with h1 n c show ?thesis by blast
qed

text \<open>
  Claim C5 as stated divides by the maximum of the view. On an all-negative view the maximum
  is -1 and the code divides by its absolute value 1: trace 0 is drawn as \<open>[0, -1, 0]\<close> and
  trace 1 as \<open>[1, 0, 1]\<close>, where the stated formula gives \<open>[0, 1, 0]\<close> and \<open>[1, 2, 1]\<close>.
\<close>

theorem wiggle_offset_traces_counterexample:
  "fst (wiggle default_args (example_state [[- 1, - 1], [- 2, - 4], [- 1, - 1]] None)) = None
   \<and> curves (axes (snd (wiggle default_args
                        (example_state [[- 1, - 1], [- 2, - 4], [- 1, - 1]] None))))
       = [[Fin 0, Fin (- 1), Fin 0], [Fin 1, Fin 0, Fin 1]]
   \<and> percentile_clip [[- 1, - 1], [- 2, - 4], [- 1, - 1]] 100
       = Inr [[- 1, - 1], [- 1, - 1], [- 1, - 1]]
   \<and> spec_maxAbs [[- 1, - 1], [- 1, - 1], [- 1, - 1]] = Inr (- 1)
   \<and> spec_offsetTrace 0 1 1 1 (- 1) [0, - 1, 0] = [0, 1, 0]
   \<and> spec_offsetTrace 1 1 1 1 (- 1) [0, - 1, 0] = [1, 2, 1]"
  by code_simp

section \<open>An all-zero view\<close>













end
